theory Spec2Isabelle
  imports Complex_Main "HOL-Library.Sublist"
begin

section \<open>Conversion of VENUS96 trajectory output to g96 and gro files\<close>

text \<open>
  The two scripts \<^verbatim>\<open>venus2g96.py\<close> and \<^verbatim>\<open>venus2gro.py\<close> scan the lines of a VENUS96
  output file, collect one molecule record per cycle block, and write the records to
  g96 or gro files, renaming an output file that already exists.

  Modelling decisions:
  \<^item> Python floats are exact rationals (\<^typ>\<open>rat\<close>): rounding, overflow and the
    non-finite values are not represented. Where numpy would produce a non-finite value
    (division by a zero mass in the g96 script) the model stops with \<open>NonFiniteValue\<close>,
    which is not an exception of the program.
  \<^item> \<^verbatim>\<open>int(s)\<close> and \<^verbatim>\<open>float(s)\<close> are modelled on signed decimal literals
    (\<^verbatim>\<open>-12\<close>, \<^verbatim>\<open>50.0\<close>, \<^verbatim>\<open>.5\<close>); exponents, underscores and \<^verbatim>\<open>inf\<close>/\<^verbatim>\<open>nan\<close>
    are rejected with \<open>ValueError\<close>.
  \<^item> Every \<^verbatim>\<open>raise\<close> of the interpreter is a value \<open>Inl e\<close>; the \<^verbatim>\<open>print\<close> calls
    are left out.
  \<^item> The two scripts share their scan and their writer line by line; the model has one
    definition for each step, with a \<open>variant\<close> argument where the scripts differ (the
    \<^verbatim>\<open>assert\<close> on the atom count, the velocity expression, the record built, the
    suffix of the output name).
  \<^item> The file system is a list of files together with the trace of the calls made on it
    (\<^verbatim>\<open>os.rename\<close>, \<^verbatim>\<open>open(..., "w")\<close>, \<^verbatim>\<open>f.writelines\<close>).
\<close>

subsection \<open>Exceptions\<close>

datatype py_error =
    ValueError
  | IndexError
  | AssertionError
  | ZeroDivisionError
  | NonFiniteValue

subsection \<open>Strings\<close>

definition is_space :: "char \<Rightarrow> bool" where
  "is_space c \<longleftrightarrow> c \<in> set [CHR '' '', CHR 0x09, CHR 0x0A, CHR 0x0B, CHR 0x0C, CHR 0x0D,
                            CHR 0x1C, CHR 0x1D, CHR 0x1E, CHR 0x1F]"

text \<open>
  \<^verbatim>\<open>s.split()\<close>: the maximal runs of non-whitespace characters, for the white space of
  ASCII.
\<close>

fun split_from :: "string \<Rightarrow> string \<Rightarrow> string list" where
  "split_from cur [] = (if cur = [] then [] else [cur])"
| "split_from cur (c # cs) =
     (if is_space c then (if cur = [] then split_from [] cs else cur # split_from [] cs)
      else split_from (cur @ [c]) cs)"

definition split_ws :: "string \<Rightarrow> string list" where
  "split_ws s = split_from [] s"

text \<open>\<^verbatim>\<open>s.split(c)\<close> for a one-character separator: never empty.\<close>

fun split_on :: "char \<Rightarrow> string \<Rightarrow> string list" where
  "split_on sep [] = [[]]"
| "split_on sep (c # cs) =
     (if c = sep then [] # split_on sep cs
      else (case split_on sep cs of
              [] \<Rightarrow> [[c]]
            | p # ps \<Rightarrow> (c # p) # ps))"

text \<open>\<^verbatim>\<open>a in s\<close> on strings: \<open>a\<close> occurs as a contiguous substring of \<open>s\<close>.\<close>

fun contains :: "string \<Rightarrow> string \<Rightarrow> bool" where
  "contains a [] = (a = [])"
| "contains a (c # cs) = (prefix a (c # cs) \<or> contains a cs)"

definition rstrip :: "string \<Rightarrow> string" where
  "rstrip s = rev (dropWhile is_space (rev s))"

definition strip :: "string \<Rightarrow> string" where
  "strip s = rstrip (dropWhile is_space s)"

definition is_digit :: "char \<Rightarrow> bool" where
  "is_digit c \<longleftrightarrow> c \<in> set ''0123456789''"

definition digit_val :: "char \<Rightarrow> int" where
  "digit_val c = of_char c - 48"

definition int_of_digits :: "string \<Rightarrow> int" where
  "int_of_digits ds = foldl (\<lambda>n c. 10 * n + digit_val c) 0 ds"

definition unsigned_int :: "string \<Rightarrow> int option" where
  "unsigned_int ds =
     (if ds \<noteq> [] \<and> list_all is_digit ds then Some (int_of_digits ds) else None)"

text \<open>\<^verbatim>\<open>int(s)\<close> on a string.\<close>

definition py_int :: "string \<Rightarrow> py_error + int" where
  "py_int s =
     (let r = (case strip s of
                 [] \<Rightarrow> None
               | c # cs \<Rightarrow>
                   if c = CHR ''-'' then map_option uminus (unsigned_int cs)
                   else if c = CHR ''+'' then unsigned_int cs
                   else unsigned_int (c # cs))
      in case r of None \<Rightarrow> Inl ValueError | Some n \<Rightarrow> Inr n)"

definition unsigned_float :: "string \<Rightarrow> rat option" where
  "unsigned_float ds =
     (let ip = takeWhile (\<lambda>c. c \<noteq> CHR ''.'') ds;
          fp = drop (Suc (length ip)) ds
      in if list_all is_digit ip \<and> list_all is_digit fp \<and> (ip \<noteq> [] \<or> fp \<noteq> [])
         then Some (of_int (int_of_digits (ip @ fp)) / 10 ^ length fp)
         else None)"

text \<open>\<^verbatim>\<open>float(s)\<close> on a string.\<close>

definition py_float :: "string \<Rightarrow> py_error + rat" where
  "py_float s =
     (let r = (case strip s of
                 [] \<Rightarrow> None
               | c # cs \<Rightarrow>
                   if c = CHR ''-'' then map_option uminus (unsigned_float cs)
                   else if c = CHR ''+'' then unsigned_float cs
                   else unsigned_float (c # cs))
      in case r of None \<Rightarrow> Inl ValueError | Some x \<Rightarrow> Inr x)"

text \<open>\<^verbatim>\<open>[float(x) for x in toks]\<close>: the first token that fails raises.\<close>

fun floats :: "string list \<Rightarrow> py_error + rat list" where
  "floats [] = Inr []"
| "floats (t # ts) =
     (case py_float t of
        Inl e \<Rightarrow> Inl e
      | Inr x \<Rightarrow> (case floats ts of Inl e \<Rightarrow> Inl e | Inr xs \<Rightarrow> Inr (x # xs)))"

text \<open>
  \<^verbatim>\<open>xs[i]\<close>: \<open>item\<close> for an index known to be non-negative, \<open>py_item\<close> for any integer,
  where \<open>-1\<close> is the last element.
\<close>

definition item :: "'a list \<Rightarrow> nat \<Rightarrow> py_error + 'a" where
  "item xs i = (if i < length xs then Inr (xs ! i) else Inl IndexError)"

definition py_item :: "'a list \<Rightarrow> int \<Rightarrow> py_error + 'a" where
  "py_item xs i =
     (if 0 \<le> i \<and> i < int (length xs) then Inr (xs ! nat i)
      else if i < 0 \<and> - int (length xs) \<le> i then Inr (xs ! nat (int (length xs) + i))
      else Inl IndexError)"

subsection \<open>Molecule records\<close>

text \<open>
  The template gro file of \<^verbatim>\<open>venus2gro.py\<close> after its Section 1: title, atom count, the four
  per-atom columns and the box line.
\<close>

record template =
  temp_title :: string
  temp_num_atoms :: int
  temp_resi_num :: "int list"
  temp_resi_name :: "string list"
  temp_atom_name :: "string list"
  temp_atom_num :: "int list"
  temp_box_size :: "rat list"

text \<open>
  \<open>G96Mol\<close> carries \<^verbatim>\<open>title\<close>, \<^verbatim>\<open>timestep = [cycle, time]\<close>, \<^verbatim>\<open>position\<close> and
  \<^verbatim>\<open>velocity\<close>; its \<^verbatim>\<open>box\<close> is always the default \<^verbatim>\<open>np.zeros(3)\<close>. \<open>GroMol\<close> carries the
  ingredients of its title \<^verbatim>\<open>f"{temp_title} Traj {cur_traj_idx}, t= {cur_time:.4f} ps"\<close>
  (the rendering of the float is not modelled), \<^verbatim>\<open>num_atoms\<close>, the template columns and
  the two arrays.
\<close>

datatype mol =
    G96Mol (title: string) (timestep: "int \<times> rat")
      (position: "rat list list") (velocity: "rat list list")
  | GroMol (gro_title: "string \<times> int \<times> rat") (mol_num_atoms: int) (mol_template: template)
      (position: "rat list list") (velocity: "rat list list")

datatype variant = G96 | Gro template

subsection \<open>Section 1 (g96) / Section 2 (gro): the scan over the VENUS96 lines\<close>

definition anchor_num_atoms :: string where "anchor_num_atoms = ''NUMBER OF ATOMS''"
definition anchor_masses :: string where "anchor_masses = ''MASSES OF ATOMS''"
definition anchor_traj :: string where "anchor_traj = ''TRAJECTORY NUMBER''"
definition anchor_cycle :: string where "anchor_cycle = ''THE CYCLE COUNT IS''"

record pstate =
  num_atoms :: int
  masses :: "rat list"
  cur_traj_idx :: int
  traj_list :: "mol list list"

definition init_state :: pstate where
  "init_state = \<lparr>num_atoms = 0, masses = [], cur_traj_idx = 0, traj_list = []\<rparr>"

text \<open>
  \<^verbatim>\<open>if anchor_num_atoms in line: num_atoms = int(line.split("=")[-1])\<close>, followed in the gro
  script by \<^verbatim>\<open>assert num_atoms == temp_num_atoms\<close>.
\<close>

definition parse_num_atoms :: "variant \<Rightarrow> string \<Rightarrow> pstate \<Rightarrow> py_error + pstate" where
  "parse_num_atoms v line st =
     (if contains anchor_num_atoms line then
        (case py_int (last (split_on CHR ''='' line)) of
           Inl e \<Rightarrow> Inl e
         | Inr n \<Rightarrow>
             (case v of
                G96 \<Rightarrow> Inr (st\<lparr>num_atoms := n\<rparr>)
              | Gro t \<Rightarrow>
                  if n = temp_num_atoms t then Inr (st\<lparr>num_atoms := n\<rparr>)
                  else Inl AssertionError))
      else Inr st)"

text \<open>
  \<^verbatim>\<open>if anchor_masses in line: cur_line_idx += 2; line = contents[cur_line_idx];
  masses = [float(x) for x in line.split()]\<close>. The cursor and the current line change.
\<close>

definition parse_masses ::
  "string list \<Rightarrow> nat \<Rightarrow> string \<Rightarrow> pstate \<Rightarrow> py_error + (nat \<times> string \<times> pstate)" where
  "parse_masses contents i line st =
     (if contains anchor_masses line then
        (case item contents (i + 2) of
           Inl e \<Rightarrow> Inl e
         | Inr l \<Rightarrow>
             (case floats (split_ws l) of
                Inl e \<Rightarrow> Inl e
              | Inr ms \<Rightarrow> Inr (i + 2, l, st\<lparr>masses := ms\<rparr>)))
      else Inr (i, line, st))"

text \<open>
  \<^verbatim>\<open>if anchor_traj in line: cur_traj_idx = int(line.split()[3]);
  if cur_traj_idx > len(traj_list): traj_list.append([])\<close>.
\<close>

definition parse_traj :: "string \<Rightarrow> pstate \<Rightarrow> py_error + pstate" where
  "parse_traj line st =
     (if contains anchor_traj line then
        (case item (split_ws line) 3 of
           Inl e \<Rightarrow> Inl e
         | Inr t \<Rightarrow>
             (case py_int t of
                Inl e \<Rightarrow> Inl e
              | Inr k \<Rightarrow>
                  Inr (st\<lparr>cur_traj_idx := k,
                          traj_list := (if k > int (length (traj_list st))
                                        then traj_list st @ [[]] else traj_list st)\<rparr>)))
      else Inr st)"

text \<open>Coordinates of one atom line: \<^verbatim>\<open>0.1 * float(x)\<close> for the tokens \<^verbatim>\<open>arr[:3]\<close>.\<close>

definition atom_xyz :: "string list \<Rightarrow> py_error + rat list" where
  "atom_xyz arr =
     (case floats (take 3 arr) of
        Inl e \<Rightarrow> Inl e
      | Inr xs \<Rightarrow> Inr (map (\<lambda>x. (1 / 10) * x) xs))"

text \<open>
  Velocity of atom \<open>a\<close> from the tokens \<^verbatim>\<open>arr[3:]\<close>. The g96 script converts all tokens,
  then reads \<^verbatim>\<open>masses[i]\<close> once and divides a numpy array; the gro script evaluates
  \<^verbatim>\<open>10.0 * float(p) / masses[i]\<close> token by token, so that \<^verbatim>\<open>masses[i]\<close> is not read when
  there is no token, and a zero mass raises.
\<close>

fun vel_gro :: "string list \<Rightarrow> rat list \<Rightarrow> nat \<Rightarrow> py_error + rat list" where
  "vel_gro [] ms a = Inr []"
| "vel_gro (p # ps) ms a =
     (case py_float p of
        Inl e \<Rightarrow> Inl e
      | Inr x \<Rightarrow>
          (case item ms a of
             Inl e \<Rightarrow> Inl e
           | Inr m \<Rightarrow>
               if m = 0 then Inl ZeroDivisionError
               else (case vel_gro ps ms a of
                       Inl e \<Rightarrow> Inl e
                     | Inr vs \<Rightarrow> Inr (10 * x / m # vs))))"

definition atom_vel :: "variant \<Rightarrow> string list \<Rightarrow> rat list \<Rightarrow> nat \<Rightarrow> py_error + rat list" where
  "atom_vel v arr ms a =
     (case v of
        G96 \<Rightarrow>
          (case floats (drop 3 arr) of
             Inl e \<Rightarrow> Inl e
           | Inr ps \<Rightarrow>
               (case item ms a of
                  Inl e \<Rightarrow> Inl e
                | Inr m \<Rightarrow>
                    if m = 0 \<and> ps \<noteq> [] then Inl NonFiniteValue
                    else Inr (map (\<lambda>p. 10 * p / m) ps)))
      | Gro t \<Rightarrow> vel_gro (drop 3 arr) ms a)"

text \<open>
  \<^verbatim>\<open>for i in range(num_atoms): cur_line_idx += 1; line = contents[cur_line_idx]; ...\<close>:
  \<open>n\<close> atoms remain, \<open>a\<close> is the loop variable \<^verbatim>\<open>i\<close>, \<open>i\<close> the cursor.
\<close>

fun read_atoms ::
  "variant \<Rightarrow> string list \<Rightarrow> rat list \<Rightarrow> nat \<Rightarrow> nat \<Rightarrow> nat \<Rightarrow> rat list list \<Rightarrow> rat list list
     \<Rightarrow> py_error + (nat \<times> rat list list \<times> rat list list)" where
  "read_atoms v contents ms 0 a i xyz vel = Inr (i, xyz, vel)"
| "read_atoms v contents ms (Suc n) a i xyz vel =
     (case item contents (i + 1) of
        Inl e \<Rightarrow> Inl e
      | Inr line \<Rightarrow>
          (case atom_xyz (split_ws line) of
             Inl e \<Rightarrow> Inl e
           | Inr xyz_atom \<Rightarrow>
               (case atom_vel v (split_ws line) ms a of
                  Inl e \<Rightarrow> Inl e
                | Inr v_atom \<Rightarrow>
                    read_atoms v contents ms n (a + 1) (i + 1)
                      (xyz @ [xyz_atom]) (vel @ [v_atom]))))"

subsection \<open>Reordering\<close>

text \<open>
  \<^verbatim>\<open>reorder_map = np.loadtxt(reorder, dtype=np.int32) - 1\<close>. The model takes the
  one-dimensional array of integers that \<^verbatim>\<open>loadtxt\<close> returns; a file with a single
  integer, for which \<^verbatim>\<open>loadtxt\<close> returns a zero-dimensional array, is not represented.
\<close>

definition load_reorder_map :: "int list \<Rightarrow> int list" where
  "load_reorder_map vals = map (\<lambda>x. x - 1) vals"

text \<open>
  \<^verbatim>\<open>for (old_idx, new_idx) in enumerate(reorder_map):
      xyz[old_idx] = _xyz[new_idx]; vel[old_idx] = _vel[new_idx]\<close>
  where \<open>sx\<close> and \<open>sv\<close> are the deep copies \<^verbatim>\<open>_xyz\<close> and \<^verbatim>\<open>_vel\<close>. Reading follows Python's
  list indexing (a negative index counts from the end); storing beyond the end raises.
\<close>

fun reorder_loop ::
  "int list \<Rightarrow> nat \<Rightarrow> 'a list \<Rightarrow> 'a list \<Rightarrow> 'a list \<Rightarrow> 'a list \<Rightarrow> py_error + ('a list \<times> 'a list)" where
  "reorder_loop [] old_idx sx sv xyz vel = Inr (xyz, vel)"
| "reorder_loop (new_idx # rest) old_idx sx sv xyz vel =
     (case py_item sx new_idx of
        Inl e \<Rightarrow> Inl e
      | Inr x \<Rightarrow>
          if length xyz \<le> old_idx then Inl IndexError
          else (case py_item sv new_idx of
                  Inl e \<Rightarrow> Inl e
                | Inr w \<Rightarrow>
                    if length vel \<le> old_idx then Inl IndexError
                    else reorder_loop rest (Suc old_idx) sx sv
                           (xyz[old_idx := x]) (vel[old_idx := w])))"

definition reorder_frame ::
  "int list \<Rightarrow> 'a list \<Rightarrow> 'a list \<Rightarrow> py_error + ('a list \<times> 'a list)" where
  "reorder_frame reorder_map xyz vel = reorder_loop reorder_map 0 xyz vel xyz vel"

definition apply_reorder ::
  "int list option \<Rightarrow> 'a list \<Rightarrow> 'a list \<Rightarrow> py_error + ('a list \<times> 'a list)" where
  "apply_reorder reorder xyz vel =
     (case reorder of
        None \<Rightarrow> Inr (xyz, vel)
      | Some reorder_map \<Rightarrow> reorder_frame reorder_map xyz vel)"

subsection \<open>One cycle block and the scan loop\<close>

text \<open>
  The gro script wraps both arrays in \<^verbatim>\<open>np.array\<close>, which raises \<^verbatim>\<open>ValueError\<close> on rows
  of different lengths (numpy 1.24 and later).
\<close>

definition rectangular :: "'a list list \<Rightarrow> bool" where
  "rectangular rows = (case rows of [] \<Rightarrow> True | r # rs \<Rightarrow> list_all (\<lambda>q. length q = length r) rs)"

definition make_mol ::
  "variant \<Rightarrow> pstate \<Rightarrow> int \<Rightarrow> rat \<Rightarrow> rat list list \<Rightarrow> rat list list \<Rightarrow> py_error + mol" where
  "make_mol v st cur_cycle cur_time xyz vel =
     (case v of
        G96 \<Rightarrow> Inr (G96Mol [] (cur_cycle, cur_time) xyz vel)
      | Gro t \<Rightarrow>
          if rectangular xyz \<and> rectangular vel
          then Inr (GroMol (temp_title t, cur_traj_idx st, cur_time) (num_atoms st) t xyz vel)
          else Inl ValueError)"

text \<open>\<^verbatim>\<open>traj_list[-1].append(mol)\<close>: raises on an empty \<^verbatim>\<open>traj_list\<close>.\<close>

definition append_to_last :: "mol \<Rightarrow> mol list list \<Rightarrow> py_error + mol list list" where
  "append_to_last g groups =
     (if groups = [] then Inl IndexError else Inr (butlast groups @ [last groups @ [g]]))"

definition parse_cycle ::
  "variant \<Rightarrow> int list option \<Rightarrow> string list \<Rightarrow> nat \<Rightarrow> string \<Rightarrow> pstate
     \<Rightarrow> py_error + (nat \<times> pstate)" where
  "parse_cycle v reorder contents i line st =
     (if contains anchor_cycle line then
        (case item (split_ws line) 4 of Inl e \<Rightarrow> Inl e | Inr c \<Rightarrow>
        (case py_int c of Inl e \<Rightarrow> Inl e | Inr cur_cycle \<Rightarrow>
        (case item (split_ws line) 6 of Inl e \<Rightarrow> Inl e | Inr t \<Rightarrow>
        (case py_float t of Inl e \<Rightarrow> Inl e | Inr raw_time \<Rightarrow>
        (case read_atoms v contents (masses st) (nat (num_atoms st)) 0 (i + 4) [] [] of
           Inl e \<Rightarrow> Inl e | Inr (j, xyz, vel) \<Rightarrow>
        (case apply_reorder reorder xyz vel of Inl e \<Rightarrow> Inl e | Inr (xyz', vel') \<Rightarrow>
        (case make_mol v st cur_cycle (raw_time * (1 / 100)) xyz' vel' of
           Inl e \<Rightarrow> Inl e | Inr g \<Rightarrow>
        (case append_to_last g (traj_list st) of Inl e \<Rightarrow> Inl e | Inr groups \<Rightarrow>
           Inr (j, st\<lparr>traj_list := groups\<rparr>)))))))))
      else Inr (i, st))"

text \<open>
  One pass through the body of \<^verbatim>\<open>while cur_line_idx < num_lines\<close>, without the final
  \<^verbatim>\<open>cur_line_idx += 1\<close>. The four tests are independent \<^verbatim>\<open>if\<close>s on the variable
  \<^verbatim>\<open>line\<close>, which the mass branch rebinds.
\<close>

definition iteration ::
  "variant \<Rightarrow> int list option \<Rightarrow> string list \<Rightarrow> nat \<Rightarrow> pstate \<Rightarrow> py_error + (nat \<times> pstate)" where
  "iteration v reorder contents i st =
     (case parse_num_atoms v (contents ! i) st of Inl e \<Rightarrow> Inl e | Inr st1 \<Rightarrow>
     (case parse_masses contents i (contents ! i) st1 of Inl e \<Rightarrow> Inl e | Inr (i2, line2, st2) \<Rightarrow>
     (case parse_traj line2 st2 of Inl e \<Rightarrow> Inl e | Inr st3 \<Rightarrow>
        parse_cycle v reorder contents i2 line2 st3)))"

lemma read_atoms_cursor:
  "read_atoms v contents ms n a i xyz vel = Inr (j, xyz', vel') \<Longrightarrow> j = i + n"
proof (induction n arbitrary: a i xyz vel)
  case 0
  then show ?case by simp
next
  case (Suc n)
  from Suc.prems obtain line xyz_atom v_atom where
    "read_atoms v contents ms n (a + 1) (i + 1) (xyz @ [xyz_atom]) (vel @ [v_atom])
       = Inr (j, xyz', vel')"
    by (auto split: sum.splits)
  from Suc.IH[OF this] show ?case by simp
qed

lemma parse_cycle_cursor:
  "parse_cycle v reorder contents i line st = Inr (j, st') \<Longrightarrow> i \<le> j"
  by (auto simp: parse_cycle_def split: if_splits sum.splits dest!: read_atoms_cursor)

lemma iteration_cursor:
  "iteration v reorder contents i st = Inr (j, st') \<Longrightarrow> i \<le> j"
  by (auto simp: iteration_def parse_masses_def split: if_splits sum.splits
           dest!: parse_cycle_cursor)

function parse_loop ::
  "variant \<Rightarrow> int list option \<Rightarrow> string list \<Rightarrow> nat \<Rightarrow> pstate \<Rightarrow> py_error + pstate" where
  "parse_loop v reorder contents i st =
     (if i < length contents then
        (case iteration v reorder contents i st of
           Inl e \<Rightarrow> Inl e
         | Inr (j, st') \<Rightarrow> parse_loop v reorder contents (Suc j) st')
      else Inr st)"
  by pat_completeness auto
termination
proof (relation "measure (\<lambda>(v, reorder, contents, i, st). length contents - i)")
  show "wf (measure (\<lambda>(v, reorder, contents, i, st). length contents - i))" by simp
next
  fix v :: variant and reorder contents i st x2 j st'
  assume "i < length contents" and "iteration v reorder contents i st = Inr x2"
    and "(j, st') = x2"
  then have "i \<le> j" using iteration_cursor[of v reorder contents i st j st'] by simp
  with \<open>i < length contents\<close>
  show "((v, reorder, contents, Suc j, st'), (v, reorder, contents, i, st))
          \<in> measure (\<lambda>(v, reorder, contents, i, st). length contents - i)"
    by simp
qed

text \<open>The parsing section as a whole: the reorder map is loaded once, then the scan runs.\<close>

definition parse_venus ::
  "variant \<Rightarrow> int list option \<Rightarrow> string list \<Rightarrow> py_error + mol list list" where
  "parse_venus v reorder contents =
     (case parse_loop v (map_option load_reorder_map reorder) contents 0 init_state of
        Inl e \<Rightarrow> Inl e
      | Inr st \<Rightarrow> Inr (traj_list st))"

subsection \<open>Section 1 of the gro script: the template\<close>

text \<open>
  \<^verbatim>\<open>temp_contents.pop(0)\<close> raises on an empty list; \<^verbatim>\<open>line[a:b]\<close> never raises.
\<close>

fun template_rows ::
  "nat \<Rightarrow> string list \<Rightarrow> int list \<Rightarrow> string list \<Rightarrow> string list \<Rightarrow> int list
     \<Rightarrow> py_error + (string list \<times> int list \<times> string list \<times> string list \<times> int list)" where
  "template_rows 0 ls rn rs an am = Inr (ls, rn, rs, an, am)"
| "template_rows (Suc n) [] rn rs an am = Inl IndexError"
| "template_rows (Suc n) (line # ls) rn rs an am =
     (case py_int (take 5 line) of Inl e \<Rightarrow> Inl e | Inr resi_num \<Rightarrow>
     (case py_int (take 5 (drop 15 line)) of Inl e \<Rightarrow> Inl e | Inr atom_num \<Rightarrow>
        template_rows n ls (rn @ [resi_num]) (rs @ [rstrip (take 5 (drop 5 line))])
          (an @ [rstrip (take 5 (drop 10 line))]) (am @ [atom_num])))"

definition parse_template :: "string list \<Rightarrow> py_error + template" where
  "parse_template temp_contents =
     (case temp_contents of
        [] \<Rightarrow> Inl IndexError
      | l0 # r0 \<Rightarrow>
     (case r0 of
        [] \<Rightarrow> Inl IndexError
      | l1 # r1 \<Rightarrow>
     (case py_int l1 of Inl e \<Rightarrow> Inl e | Inr n \<Rightarrow>
     (case template_rows (nat n) r1 [] [] [] [] of
        Inl e \<Rightarrow> Inl e
      | Inr (r2, rn, rs, an, am) \<Rightarrow>
     (case r2 of
        [] \<Rightarrow> Inl IndexError
      | l2 # r3 \<Rightarrow>
     (case floats (split_ws l2) of
        Inl e \<Rightarrow> Inl e
      | Inr box \<Rightarrow>
          Inr \<lparr>temp_title = rstrip l0, temp_num_atoms = n, temp_resi_num = rn,
               temp_resi_name = rs, temp_atom_name = an, temp_atom_num = am,
               temp_box_size = box\<rparr>))))))"

subsection \<open>The file system and its trace\<close>

text \<open>
  Files are an association list from path to content; the content of an output file is the
  list of molecule records whose \<^verbatim>\<open>str\<close> was written to it (the text of a record is not
  modelled, only whether \<^verbatim>\<open>str\<close> raises). Paths are relative to the working directory and
  written without redundant \<^verbatim>\<open>./\<close>, \<^verbatim>\<open>..\<close> or repeated slashes, so that equal files have equal
  paths. Every directory named by a path is taken to exist. The trace records the calls
  that touch the file system, oldest first.
\<close>

datatype event =
    Rename string string
  | OpenW string
  | WriteMol string mol

record world =
  files :: "(string \<times> mol list) list"
  trace :: "event list"

definition path_exists :: "world \<Rightarrow> string \<Rightarrow> bool" where
  "path_exists w p \<longleftrightarrow> map_of (files w) p \<noteq> None"

definition put_file :: "string \<Rightarrow> mol list \<Rightarrow> (string \<times> mol list) list \<Rightarrow> (string \<times> mol list) list" where
  "put_file p c fl = (p, c) # filter (\<lambda>(q, d). q \<noteq> p) fl"

definition del_file :: "string \<Rightarrow> (string \<times> mol list) list \<Rightarrow> (string \<times> mol list) list" where
  "del_file p fl = filter (\<lambda>(q, d). q \<noteq> p) fl"

text \<open>\<^verbatim>\<open>os.rename(src, dst)\<close> on POSIX: an existing \<open>dst\<close> is replaced without notice.\<close>

definition os_rename :: "string \<Rightarrow> string \<Rightarrow> world \<Rightarrow> world" where
  "os_rename src dst w =
     (case map_of (files w) src of
        None \<Rightarrow> w
      | Some c \<Rightarrow>
          \<lparr>files = (if src = dst then files w else put_file dst c (del_file src (files w))),
           trace = trace w @ [Rename src dst]\<rparr>)"

text \<open>\<^verbatim>\<open>open(p, "w")\<close>: the file is created or truncated.\<close>

definition open_w :: "string \<Rightarrow> world \<Rightarrow> world" where
  "open_w p w = \<lparr>files = put_file p [] (files w), trace = trace w @ [OpenW p]\<rparr>"

definition append_mol :: "string \<Rightarrow> mol \<Rightarrow> world \<Rightarrow> world" where
  "append_mol p g w =
     \<lparr>files = put_file p ((case map_of (files w) p of None \<Rightarrow> [] | Some c \<Rightarrow> c) @ [g]) (files w),
      trace = trace w @ [WriteMol p g]\<rparr>"

text \<open>\<^verbatim>\<open>os.path.basename\<close>, \<^verbatim>\<open>os.path.dirname\<close> and \<^verbatim>\<open>os.path.join\<close> of \<^verbatim>\<open>posixpath\<close>.\<close>

definition basename :: "string \<Rightarrow> string" where
  "basename p = rev (takeWhile (\<lambda>c. c \<noteq> CHR ''/'') (rev p))"

definition dirname :: "string \<Rightarrow> string" where
  "dirname p =
     (let head = take (length p - length (basename p)) p
      in if head \<noteq> [] \<and> \<not> list_all (\<lambda>c. c = CHR ''/'') head
         then rev (dropWhile (\<lambda>c. c = CHR ''/'') (rev head))
         else head)"

definition path_join :: "string \<Rightarrow> string \<Rightarrow> string" where
  "path_join a b =
     (if b \<noteq> [] \<and> hd b = CHR ''/'' then b
      else if a = [] \<or> last a = CHR ''/'' then a @ b
      else a @ ''/'' @ b)"

text \<open>
  \<^verbatim>\<open>fnmatch\<close> with the wildcards \<^verbatim>\<open>*\<close> and \<^verbatim>\<open>?\<close>; bracket expressions are not modelled, so
  file names with \<^verbatim>\<open>[\<close> are outside the model.
\<close>

fun fnmatch :: "string \<Rightarrow> string \<Rightarrow> bool" where
  "fnmatch [] s = (s = [])"
| "fnmatch (p # ps) [] = (p = CHR ''*'' \<and> fnmatch ps [])"
| "fnmatch (p # ps) (c # cs) =
     (if p = CHR ''*'' then fnmatch ps (c # cs) \<or> fnmatch (p # ps) cs
      else (p = CHR ''?'' \<or> p = c) \<and> fnmatch ps cs)"

text \<open>
  \<^verbatim>\<open>glob.glob(pathname)\<close> for a pathname whose directory part has no wildcard: the files
  of that directory whose name matches the last component.
\<close>

definition glob :: "world \<Rightarrow> string \<Rightarrow> string list" where
  "glob w pathname =
     filter (\<lambda>p. dirname p = dirname pathname \<and> fnmatch (basename pathname) (basename p))
       (map fst (files w))"

text \<open>\<^verbatim>\<open>s.replace(old, new)\<close> for a non-empty \<open>old\<close>: every occurrence, left to right.\<close>

fun replace :: "string \<Rightarrow> string \<Rightarrow> string \<Rightarrow> string" where
  "replace old new [] = []"
| "replace old new (c # cs) =
     (if old \<noteq> [] \<and> prefix old (c # cs)
      then new @ replace old new (drop (length old - 1) cs)
      else c # replace old new cs)"

text \<open>\<^verbatim>\<open>f"{n}"\<close> for a non-negative integer.\<close>

function str_nat :: "nat \<Rightarrow> string" where
  "str_nat n =
     (if n < 10 then [char_of (48 + n)]
      else str_nat (n div 10) @ [char_of (48 + n mod 10)])"
  by pat_completeness auto
termination
  by (relation "measure (\<lambda>n. n)") auto

subsection \<open>Section 2 (g96) / Section 3 (gro): writing\<close>

definition ext :: "variant \<Rightarrow> string" where
  "ext v = (case v of G96 \<Rightarrow> ''.g96'' | Gro t \<Rightarrow> ''.gro'')"

text \<open>
  \<^verbatim>\<open>_auto_backup_file(file)\<close>. The pattern is joined with \<^verbatim>\<open>file_dir\<close>; the new name passed
  to \<^verbatim>\<open>os.rename\<close> is not.
\<close>

definition auto_backup_file :: "variant \<Rightarrow> string \<Rightarrow> world \<Rightarrow> world" where
  "auto_backup_file v file w =
     (if \<not> path_exists w file then w
      else
        let file_dir = dirname file;
            file_name = basename file;
            old_file_pattern = ''#'' @ replace (ext v) [] file_name @ ''.*'' @ ext v @ ''#'';
            old_files = glob w (path_join file_dir old_file_pattern);
            num_old_files = length old_files;
            new_backup_file_name =
              ''#'' @ replace (ext v) [] file_name @ ''.'' @ str_nat (num_old_files + 1)
                @ ext v @ ''#''
        in os_rename file new_backup_file_name w)"

text \<open>
  \<^verbatim>\<open>str(frame)\<close> raises \<^verbatim>\<open>IndexError\<close> when a subscript is out of range: the g96 record
  reads three components of every position and velocity; the gro record reads, for every
  \<^verbatim>\<open>i in range(num_atoms)\<close>, the four template columns and three components of row \<open>i\<close> of
  both arrays, then three components of the box.
\<close>

definition str_ok :: "mol \<Rightarrow> bool" where
  "str_ok g =
     (case g of
        G96Mol ti ts pos vel \<Rightarrow>
          list_all (\<lambda>p. 3 \<le> length p) pos \<and> list_all (\<lambda>p. 3 \<le> length p) vel
      | GroMol ti n t pos vel \<Rightarrow>
          nat n \<le> length (temp_resi_num t) \<and> nat n \<le> length (temp_resi_name t) \<and>
          nat n \<le> length (temp_atom_name t) \<and> nat n \<le> length (temp_atom_num t) \<and>
          nat n \<le> length pos \<and> nat n \<le> length vel \<and>
          list_all (\<lambda>p. 3 \<le> length p) (take (nat n) pos) \<and>
          list_all (\<lambda>p. 3 \<le> length p) (take (nat n) vel) \<and>
          3 \<le> length (temp_box_size t))"

text \<open>\<^verbatim>\<open>for frame in traj: f.writelines(f"{str(frame)}\n")\<close> on the open file \<open>p\<close>.\<close>

fun write_frames :: "string \<Rightarrow> mol list \<Rightarrow> world \<Rightarrow> world \<times> py_error option" where
  "write_frames p [] w = (w, None)"
| "write_frames p (g # gs) w =
     (if str_ok g then write_frames p gs (append_mol p g w) else (w, Some IndexError))"

text \<open>
  The output name of the group at position \<open>traj_idx\<close> of \<^verbatim>\<open>enumerate(traj_list)\<close>:
  \<^verbatim>\<open>out_g96.replace(".g96", f"_{traj_idx + 1}.g96")\<close> in the g96 script and
  \<^verbatim>\<open>out_gro.replace(".gro", f"_{traj_idx}.gro")\<close> in the gro script.
\<close>

definition traj_name :: "variant \<Rightarrow> string \<Rightarrow> nat \<Rightarrow> string" where
  "traj_name v out traj_idx =
     (case v of
        G96 \<Rightarrow> replace ''.g96'' (''_'' @ str_nat (traj_idx + 1) @ ''.g96'') out
      | Gro t \<Rightarrow> replace ''.gro'' (''_'' @ str_nat traj_idx @ ''.gro'') out)"

fun write_trajs ::
  "variant \<Rightarrow> string \<Rightarrow> nat \<Rightarrow> mol list list \<Rightarrow> string list \<Rightarrow> world
     \<Rightarrow> world \<times> (py_error + string list)" where
  "write_trajs v out traj_idx [] names w = (w, Inr names)"
| "write_trajs v out traj_idx (traj # rest) names w =
     (let name = traj_name v out traj_idx;
          w1 = open_w name (auto_backup_file v name w)
      in case write_frames name traj w1 of
           (w2, Some e) \<Rightarrow> (w2, Inl e)
         | (w2, None) \<Rightarrow> write_trajs v out (traj_idx + 1) rest (names @ [name]) w2)"

text \<open>
  \<^verbatim>\<open>if not split: traj_list = np.concatenate(traj_list).reshape(1, -1).tolist()\<close>;
  \<^verbatim>\<open>np.concatenate\<close> raises \<^verbatim>\<open>ValueError\<close> on an empty list.
\<close>

definition group_trajs :: "bool \<Rightarrow> mol list list \<Rightarrow> py_error + mol list list" where
  "group_trajs split groups =
     (if split then Inr groups
      else if groups = [] then Inl ValueError
      else Inr [concat groups])"

definition write_section ::
  "variant \<Rightarrow> string \<Rightarrow> bool \<Rightarrow> mol list list \<Rightarrow> world \<Rightarrow> world \<times> (py_error + string list)" where
  "write_section v out split groups w =
     (case group_trajs split groups of
        Inl e \<Rightarrow> (w, Inl e)
      | Inr gs \<Rightarrow> write_trajs v out 0 gs [] w)"

subsection \<open>The two entry points\<close>

text \<open>
  \<open>venus_out\<close> is the result of \<^verbatim>\<open>open(venus_out).readlines()\<close>, \<open>reorder\<close> the integers of
  the reorder file when one is given, \<open>template_gro\<close> the lines of the template.
\<close>

definition venus2g96 ::
  "string list \<Rightarrow> string \<Rightarrow> int list option \<Rightarrow> bool \<Rightarrow> world \<Rightarrow> world \<times> (py_error + string list)" where
  "venus2g96 venus_out out_g96 reorder split w =
     (case parse_venus G96 reorder venus_out of
        Inl e \<Rightarrow> (w, Inl e)
      | Inr groups \<Rightarrow> write_section G96 out_g96 split groups w)"

definition venus2gro ::
  "string list \<Rightarrow> string list \<Rightarrow> string \<Rightarrow> int list option \<Rightarrow> bool \<Rightarrow> world
     \<Rightarrow> world \<times> (py_error + string list)" where
  "venus2gro venus_out template_gro out_gro reorder split w =
     (case parse_template template_gro of
        Inl e \<Rightarrow> (w, Inl e)
      | Inr t \<Rightarrow>
          (case parse_venus (Gro t) reorder venus_out of
             Inl e \<Rightarrow> (w, Inl e)
           | Inr groups \<Rightarrow> write_section (Gro t) out_gro split groups w))"

subsection \<open>Example inputs\<close>

definition nl :: "string \<Rightarrow> string" where
  "nl s = s @ [CHR 0x0A]"

text \<open>Two atoms, masses 1.0 and 2.0, trajectory 1, one cycle block.\<close>

definition scenario :: "string list" where
  "scenario =
     [nl ''  NUMBER OF ATOMS = 2'',
      nl ''  MASSES OF ATOMS'',
      nl [],
      nl ''1.0 2.0'',
      nl ''**** TRAJECTORY NUMBER 1'',
      nl ''THE CYCLE COUNT IS 100 TIME 50.0'',
      nl [], nl [], nl [], nl [],
      nl ''1.0 2.0 3.0 0.0 0.0 0.0'',
      nl ''4.0 5.0 6.0 2.0 0.0 0.0'']"

text \<open>A trajectory and a cycle block, with neither atom count nor masses before them.\<close>

definition no_atom_count :: "string list" where
  "no_atom_count =
     [nl ''**** TRAJECTORY NUMBER 1'',
      nl ''THE CYCLE COUNT IS 100 TIME 50.0'']"

text \<open>One atom declared, two values on the mass line.\<close>

definition surplus_mass :: "string list" where
  "surplus_mass =
     [nl ''  NUMBER OF ATOMS = 1'',
      nl ''  MASSES OF ATOMS'',
      nl [],
      nl ''1.0 2.0'',
      nl ''**** TRAJECTORY NUMBER 1'',
      nl ''THE CYCLE COUNT IS 100 TIME 50.0'',
      nl [], nl [], nl [], nl [],
      nl ''1.0 2.0 3.0 0.0 0.0 0.0'']"

text \<open>One atom whose line has two fields only.\<close>

definition short_atom_line :: "string list" where
  "short_atom_line =
     [nl ''  NUMBER OF ATOMS = 1'',
      nl ''  MASSES OF ATOMS'',
      nl [],
      nl ''1.0'',
      nl ''**** TRAJECTORY NUMBER 1'',
      nl ''THE CYCLE COUNT IS 100 TIME 50.0'',
      nl [], nl [], nl [], nl [],
      nl ''1.0 2.0'']"

text \<open>A template gro file for two atoms.\<close>

definition template_two :: "string list" where
  "template_two =
     [nl ''water'',
      nl ''    2'',
      nl ''    1SOL     OW    1   0.126   1.624   1.679'',
      nl ''    1SOL    HW1    2   0.190   1.661   1.747'',
      nl ''   1.86206   1.86206   1.86206'']"

text \<open>A template gro file for one atom.\<close>

definition template_one :: "string list" where
  "template_one =
     [nl ''argon'',
      nl ''    1'',
      nl ''    1AR      AR    1   0.000   0.000   0.000'',
      nl ''   1.5   1.5   1.5'']"

text \<open>A world without files, a record of an earlier run, the record of the scenario.\<close>

definition empty_world :: world where
  "empty_world = \<lparr>files = [], trace = []\<rparr>"

definition old_mol :: mol where
  "old_mol = G96Mol [] (7, 0) [] []"

definition scenario_mol :: mol where
  "scenario_mol =
     G96Mol [] (100, 1 / 2) [[1 / 10, 2 / 10, 3 / 10], [4 / 10, 5 / 10, 6 / 10]]
       [[0, 0, 0], [10, 0, 0]]"

subsection \<open>Notions used in the statements\<close>



text \<open>
  The gro script reads \<^verbatim>\<open>masses[i]\<close> only while it converts a momentum token, so a missing
  mass is noticed on line \<open>k\<close> only if that line has more than three tokens.
\<close>

definition momenta_on_line :: "variant \<Rightarrow> string list \<Rightarrow> nat \<Rightarrow> bool" where
  "momenta_on_line v contents k =
     (case v of
        G96 \<Rightarrow> True
      | Gro t \<Rightarrow> k < length contents \<longrightarrow> 3 < length (split_ws (contents ! k)))"


text \<open>One atom declared and a cycle block, without a mass table.\<close>

definition no_masses :: "string list" where
  "no_masses =
     [nl ''  NUMBER OF ATOMS = 1'',
      nl ''**** TRAJECTORY NUMBER 1'',
      nl ''THE CYCLE COUNT IS 100 TIME 50.0'',
      nl [], nl [], nl [], nl [],
      nl ''1.0 2.0 3.0 0.0 0.0 0.0'']"





text \<open>The records written and the paths opened, as the trace lists them.\<close>

definition written :: "event list \<Rightarrow> (string \<times> mol) list" where
  "written tr = concat (map (\<lambda>e. case e of WriteMol p g \<Rightarrow> [(p, g)] | _ \<Rightarrow> []) tr)"

definition opened :: "event list \<Rightarrow> string list" where
  "opened tr = concat (map (\<lambda>e. case e of OpenW p \<Rightarrow> [p] | _ \<Rightarrow> []) tr)"

text \<open>A world in which the first g96 output of the working directory exists already.\<close>

definition old_world :: world where
  "old_world = \<lparr>files = [(''traj_1.g96'', [old_mol])], trace = []\<rparr>"

text \<open>What Section 1 of the gro script reads from \<open>template_two\<close>.\<close>

definition template_two_parsed :: template where
  "template_two_parsed =
     \<lparr>temp_title = ''water'', temp_num_atoms = 2, temp_resi_num = [1, 1],
      temp_resi_name = [''SOL'', ''SOL''], temp_atom_name = [''   OW'', ''  HW1''],
      temp_atom_num = [1, 2],
      temp_box_size = [93103 / 50000, 93103 / 50000, 93103 / 50000]\<rparr>"

section \<open>Properties\<close>

subsection \<open>The scan\<close>


text \<open>
  C3, as stated, fails: a cycle block met before any \<^verbatim>\<open>NUMBER OF ATOMS\<close> line finds
  \<^verbatim>\<open>num_atoms = 0\<close>, reads no atom line and appends a record with empty arrays.
\<close>

theorem cycle_before_atom_count_counterexample:
  "parse_venus G96 None no_atom_count = Inr [[G96Mol [] (100, 1 / 2) [] []]]"
  by code_simp

subsection \<open>Failures of the scan\<close>

lemma py_float_error: "py_float s = Inl e \<Longrightarrow> e = ValueError"
  by (auto simp: py_float_def Let_def split: option.splits list.splits if_splits)

lemma py_int_error: "py_int s = Inl e \<Longrightarrow> e = ValueError"
  by (auto simp: py_int_def Let_def split: option.splits list.splits if_splits)

lemma item_error: "item xs i = Inl e \<Longrightarrow> e = IndexError"
  by (auto simp: item_def split: if_splits)

lemma floats_error: "floats ts = Inl e \<Longrightarrow> e = ValueError"
  by (induction ts) (auto split: sum.splits dest: py_float_error)

lemma atom_xyz_error: "atom_xyz arr = Inl e \<Longrightarrow> e = ValueError"
  by (auto simp: atom_xyz_def split: sum.splits dest: floats_error)

lemma vel_gro_error:
  "a < length ms \<Longrightarrow> ms ! a \<noteq> 0 \<Longrightarrow> vel_gro ts ms a = Inl e \<Longrightarrow> e = ValueError"
  by (induction ts arbitrary: e) (auto simp: item_def split: sum.splits dest: py_float_error)

lemma vel_gro_no_mass:
  "ts \<noteq> [] \<Longrightarrow> length ms \<le> a \<Longrightarrow>
     vel_gro ts ms a = Inl IndexError \<or> vel_gro ts ms a = Inl ValueError"
  by (cases ts) (auto simp: item_def split: sum.splits dest: py_float_error)

lemma atom_vel_error:
  "a < length ms \<Longrightarrow> ms ! a \<noteq> 0 \<Longrightarrow> atom_vel v arr ms a = Inl e \<Longrightarrow> e = ValueError"
  by (auto simp: atom_vel_def item_def split: variant.splits sum.splits if_splits
           dest: floats_error vel_gro_error)

lemma atom_vel_no_mass:
  "length ms \<le> a \<Longrightarrow> v = G96 \<or> 3 < length arr \<Longrightarrow>
     atom_vel v arr ms a = Inl IndexError \<or> atom_vel v arr ms a = Inl ValueError"
  using vel_gro_no_mass[of "drop 3 arr" ms a]
  by (auto simp: atom_vel_def item_def split: variant.splits sum.splits dest: floats_error)

lemma momenta_on_line_arr:
  "momenta_on_line v contents k \<Longrightarrow> item contents k = Inr line \<Longrightarrow>
     v = G96 \<or> 3 < length (split_ws line)"
  by (auto simp: momenta_on_line_def item_def split: variant.splits if_splits)

lemma read_atoms_short_masses:
  assumes "0 < n" and "length ms < a + n" and "0 \<notin> set ms"
    and "momenta_on_line v contents (i + 1 + (length ms - a))"
  shows "read_atoms v contents ms n a i xyz vel = Inl IndexError
         \<or> read_atoms v contents ms n a i xyz vel = Inl ValueError"
  using assms
proof (induction n arbitrary: a i xyz vel)
  case 0
  then show ?case by simp
next
  case (Suc n)
  show ?case
  proof (cases "item contents (i + 1)")
    case (Inl e)
    then show ?thesis by (auto dest: item_error)
  next
    case line: (Inr line)
    show ?thesis
    proof (cases "atom_xyz (split_ws line)")
      case (Inl e)
      then show ?thesis using line by (auto dest: atom_xyz_error)
    next
      case xyz_atom: (Inr xyz_atom)
      show ?thesis
      proof (cases "a < length ms")
        case False
        then have "length ms - a = 0" by simp
        with Suc.prems(4) line have "v = G96 \<or> 3 < length (split_ws line)"
          using momenta_on_line_arr[of v contents "i + 1" line] by simp
        with False have "atom_vel v (split_ws line) ms a = Inl IndexError
                         \<or> atom_vel v (split_ws line) ms a = Inl ValueError"
          by (intro atom_vel_no_mass) simp_all
        then show ?thesis using line xyz_atom by auto
      next
        case True
        with Suc.prems(3) have nz: "ms ! a \<noteq> 0" by (metis nth_mem)
        show ?thesis
        proof (cases "atom_vel v (split_ws line) ms a")
          case (Inl e)
          with True nz have "e = ValueError" by (auto dest: atom_vel_error)
          with Inl line xyz_atom show ?thesis by simp
        next
          case (Inr v_atom)
          from True Suc.prems(2) have n: "0 < n" "length ms < (a + 1) + n" by simp_all
          from True have eq: "(i + 1) + 1 + (length ms - (a + 1)) = i + 1 + (length ms - a)"
            by arith
          have m: "momenta_on_line v contents ((i + 1) + 1 + (length ms - (a + 1)))"
            unfolding eq by (rule Suc.prems(4))
          have "read_atoms v contents ms n (a + 1) (i + 1) (xyz @ [xyz_atom]) (vel @ [v_atom])
                  = Inl IndexError
                \<or> read_atoms v contents ms n (a + 1) (i + 1) (xyz @ [xyz_atom]) (vel @ [v_atom])
                  = Inl ValueError"
            using n Suc.prems(3) m by (rule Suc.IH)
          then show ?thesis using line xyz_atom Inr by simp
        qed
      qed
    qed
  qed
qed

lemma parse_cycle_short_masses:
  assumes "contains anchor_cycle line" and "length (masses st) < nat (num_atoms st)"
    and "0 \<notin> set (masses st)"
    and "momenta_on_line v contents (i + 5 + length (masses st))"
  shows "parse_cycle v reorder contents i line st = Inl IndexError
         \<or> parse_cycle v reorder contents i line st = Inl ValueError"
proof -
  have "read_atoms v contents (masses st) (nat (num_atoms st)) 0 (i + 4) [] [] = Inl IndexError
        \<or> read_atoms v contents (masses st) (nat (num_atoms st)) 0 (i + 4) [] [] = Inl ValueError"
    using assms by (intro read_atoms_short_masses) (simp_all add: add.commute add.left_commute)
  then show ?thesis
    using assms(1)
    by (auto simp: parse_cycle_def split: sum.splits
             dest: item_error py_int_error py_float_error)
qed

lemma parse_traj_keeps:
  "parse_traj line st = Inr st' \<Longrightarrow> masses st' = masses st \<and> num_atoms st' = num_atoms st"
  by (auto simp: parse_traj_def split: if_splits sum.splits)

lemma parse_traj_error:
  "parse_traj line st = Inl e \<Longrightarrow> e = IndexError \<or> e = ValueError"
  by (auto simp: parse_traj_def split: if_splits sum.splits dest: item_error py_int_error)

lemma iteration_short_masses:
  assumes "contains anchor_cycle (contents ! i)"
    and "\<not> contains anchor_num_atoms (contents ! i)" and "\<not> contains anchor_masses (contents ! i)"
    and "length (masses st) < nat (num_atoms st)" and "0 \<notin> set (masses st)"
    and "momenta_on_line v contents (i + 5 + length (masses st))"
  shows "iteration v reorder contents i st = Inl IndexError
         \<or> iteration v reorder contents i st = Inl ValueError"
proof (cases "parse_traj (contents ! i) st")
  case (Inl e)
  then show ?thesis
    using assms(2,3) parse_traj_error[OF Inl]
    by (auto simp: iteration_def parse_num_atoms_def parse_masses_def)
next
  case (Inr st3)
  from parse_traj_keeps[OF Inr] assms(4,5,6)
  have "parse_cycle v reorder contents i (contents ! i) st3 = Inl IndexError
        \<or> parse_cycle v reorder contents i (contents ! i) st3 = Inl ValueError"
    by (intro parse_cycle_short_masses assms(1)) simp_all
  then show ?thesis
    using assms(2,3) Inr
    by (auto simp: iteration_def parse_num_atoms_def parse_masses_def)
qed

text \<open>
  C3, amended. When the scan meets a cycle anchor (on a line with neither of the two header
  anchors) while the atom count is positive and the mass table is still empty, it fails
  with \<open>IndexError\<close> or \<open>ValueError\<close>, so no record is produced for that marker; in the
  gro script this needs more than three tokens on the first atom line of the block.
\<close>

theorem cycle_without_masses_fails:
  assumes "i < length contents" and "contains anchor_cycle (contents ! i)"
    and "\<not> contains anchor_num_atoms (contents ! i)" and "\<not> contains anchor_masses (contents ! i)"
    and "0 < num_atoms st" and "masses st = []"
    and "momenta_on_line v contents (i + 5)"
  shows "parse_loop v reorder contents i st = Inl IndexError
         \<or> parse_loop v reorder contents i st = Inl ValueError"
proof -
  have "iteration v reorder contents i st = Inl IndexError
        \<or> iteration v reorder contents i st = Inl ValueError"
    using assms by (intro iteration_short_masses) simp_all
  then show ?thesis
    using assms(1) by (subst (1 2) parse_loop.simps) auto
qed

theorem cycle_without_masses_fails_witness:
  "2 < length no_masses \<and> contains anchor_cycle (no_masses ! 2)
   \<and> \<not> contains anchor_num_atoms (no_masses ! 2) \<and> \<not> contains anchor_masses (no_masses ! 2)
   \<and> 0 < num_atoms \<lparr>num_atoms = 1, masses = [], cur_traj_idx = 1, traj_list = [[]]\<rparr>
   \<and> masses \<lparr>num_atoms = 1, masses = [], cur_traj_idx = 1, traj_list = [[]]\<rparr> = []
   \<and> momenta_on_line G96 no_masses (2 + 5)
   \<and> (parse_loop G96 None no_masses 2
         \<lparr>num_atoms = 1, masses = [], cur_traj_idx = 1, traj_list = [[]]\<rparr> = Inl IndexError
       \<or> parse_loop G96 None no_masses 2
         \<lparr>num_atoms = 1, masses = [], cur_traj_idx = 1, traj_list = [[]]\<rparr> = Inl ValueError)"
proof -
  let ?st = "\<lparr>num_atoms = 1, masses = [], cur_traj_idx = 1, traj_list = [[]]\<rparr>"
  have h1: "2 < length no_masses" by code_simp
  have h2: "contains anchor_cycle (no_masses ! 2)" by code_simp
  have h3: "\<not> contains anchor_num_atoms (no_masses ! 2)" by code_simp
  have h4: "\<not> contains anchor_masses (no_masses ! 2)" by code_simp
  have h5: "0 < num_atoms ?st" by simp
  have h6: "masses ?st = []" by simp
  have h7: "momenta_on_line G96 no_masses (2 + 5)" by (simp add: momenta_on_line_def)
  show ?thesis
    by (intro conjI h1 h2 h3 h4 h5 h6 h7
          cycle_without_masses_fails[OF h1 h2 h3 h4 h5 h6 h7, of None])
qed




subsection \<open>Reordering\<close>










subsection \<open>Grouping of the records\<close>












subsection \<open>Writing\<close>

lemma written_append [simp]: "written (a @ b) = written a @ written b"
  by (simp add: written_def)

lemma opened_append [simp]: "opened (a @ b) = opened a @ opened b"
  by (simp add: opened_def)

lemma backup_events:
  "written (trace (auto_backup_file v name w)) = written (trace w)
   \<and> opened (trace (auto_backup_file v name w)) = opened (trace w)"
  by (auto simp: auto_backup_file_def os_rename_def Let_def written_def opened_def
           split: option.splits)

lemma open_events:
  "written (trace (open_w p w)) = written (trace w)
   \<and> opened (trace (open_w p w)) = opened (trace w) @ [p]"
  by (simp add: open_w_def written_def opened_def)

lemma write_frames_events:
  "write_frames p gs w = (w', err) \<Longrightarrow>
     written (trace w') = written (trace w) @ map (Pair p) (takeWhile str_ok gs)
     \<and> opened (trace w') = opened (trace w)
     \<and> (err = None \<longleftrightarrow> list_all str_ok gs)"
proof (induction gs arbitrary: w)
  case Nil
  then show ?case by auto
next
  case (Cons g gs)
  show ?case
  proof (cases "str_ok g")
    case True
    with Cons.prems have "write_frames p gs (append_mol p g w) = (w', err)" by simp
    from Cons.IH[OF this] True show ?thesis
      by (simp add: append_mol_def written_def opened_def)
  next
    case False
    with Cons.prems show ?thesis by auto
  qed
qed

lemma write_trajs_events:
  "write_trajs v out k groups names w = (w', r) \<Longrightarrow>
     map snd (written (trace w')) = map snd (written (trace w)) @ takeWhile str_ok (concat groups)"
proof (induction groups arbitrary: k names w)
  case Nil
  then show ?case by auto
next
  case (Cons traj rest)
  let ?name = "traj_name v out k"
  let ?w1 = "open_w ?name (auto_backup_file v ?name w)"
  obtain w2 err where wf: "write_frames ?name traj ?w1 = (w2, err)"
    by (cases "write_frames ?name traj ?w1")
  from write_frames_events[OF wf]
  have wr: "map snd (written (trace w2)) = map snd (written (trace w)) @ takeWhile str_ok traj"
    and ok: "err = None \<longleftrightarrow> list_all str_ok traj"
    by (simp_all add: open_events backup_events comp_def)
  show ?case
  proof (cases err)
    case None
    with Cons.prems wf have "write_trajs v out (k + 1) rest (names @ [?name]) w2 = (w', r)"
      by (simp add: Let_def)
    from Cons.IH[OF this] wr ok None show ?thesis
      by (simp add: list_all_iff takeWhile_append2)
  next
    case (Some e)
    with Cons.prems wf have "w' = w2" by (simp add: Let_def)
    moreover from Some ok obtain g where "g \<in> set traj" and "\<not> str_ok g"
      by (auto simp: list_all_iff)
    then have "takeWhile str_ok (traj @ concat rest) = takeWhile str_ok traj"
      by (rule takeWhile_append1)
    ultimately show ?thesis using wr by simp
  qed
qed

lemma write_single_events:
  "write_trajs v out 0 [gs] [] w = (w', r) \<Longrightarrow>
     written (trace w') = written (trace w) @ map (Pair (traj_name v out 0)) (takeWhile str_ok gs)
     \<and> opened (trace w') = opened (trace w) @ [traj_name v out 0]
     \<and> (list_all str_ok gs \<longrightarrow> r = Inr [traj_name v out 0])"
proof -
  let ?name = "traj_name v out 0"
  let ?w1 = "open_w ?name (auto_backup_file v ?name w)"
  assume a: "write_trajs v out 0 [gs] [] w = (w', r)"
  obtain w2 err where wf: "write_frames ?name gs ?w1 = (w2, err)"
    by (cases "write_frames ?name gs ?w1")
  from a wf have "w' = w2" and "r = (case err of None \<Rightarrow> Inr [?name] | Some e \<Rightarrow> Inl e)"
    by (auto simp: Let_def split: option.splits)
  with write_frames_events[OF wf] show ?thesis
    by (auto simp: open_events backup_events)
qed

text \<open>
  C7, as stated, fails on the empty trajectory list (a VENUS96 file without a trajectory
  line): with split disabled \<^verbatim>\<open>np.concatenate\<close> raises and no file is written, with split
  enabled the run returns normally.
\<close>

theorem no_split_empty_counterexample:
  "venus2g96 [] ''traj.g96'' None False empty_world = (empty_world, Inl ValueError)
   \<and> venus2g96 [] ''traj.g96'' None True empty_world = (empty_world, Inr [])"
  by code_simp

text \<open>
  C7, amended. For every non-empty trajectory list, the records written with split
  enabled and with split disabled are the same sequence: the concatenation of the groups
  in list order, up to the first record whose \<^verbatim>\<open>str\<close> raises. With split disabled they are
  all written to one file, the only one opened, and if no \<^verbatim>\<open>str\<close> raises the run returns
  that one name.
\<close>

theorem split_conserves_frames:
  assumes "groups \<noteq> []"
  shows "map snd (written (trace (fst (write_section v out True groups w))))
           = map snd (written (trace w)) @ takeWhile str_ok (concat groups)
         \<and> written (trace (fst (write_section v out False groups w)))
           = written (trace w) @ map (Pair (traj_name v out 0)) (takeWhile str_ok (concat groups))
         \<and> opened (trace (fst (write_section v out False groups w)))
           = opened (trace w) @ [traj_name v out 0]
         \<and> (list_all str_ok (concat groups)
              \<longrightarrow> snd (write_section v out False groups w) = Inr [traj_name v out 0])"
proof -
  have s: "write_section v out True groups w = write_trajs v out 0 groups [] w"
    by (simp add: write_section_def group_trajs_def)
  have n: "write_section v out False groups w = write_trajs v out 0 [concat groups] [] w"
    using assms by (simp add: write_section_def group_trajs_def)
  have 1: "map snd (written (trace (fst (write_section v out True groups w))))
           = map snd (written (trace w)) @ takeWhile str_ok (concat groups)"
    unfolding s by (rule write_trajs_events[of v out 0 groups "[]" w _ "snd (write_trajs v out 0 groups [] w)"]) simp
  have 2: "written (trace (fst (write_trajs v out 0 [concat groups] [] w)))
             = written (trace w) @ map (Pair (traj_name v out 0)) (takeWhile str_ok (concat groups))
           \<and> opened (trace (fst (write_trajs v out 0 [concat groups] [] w)))
             = opened (trace w) @ [traj_name v out 0]
           \<and> (list_all str_ok (concat groups)
                \<longrightarrow> snd (write_trajs v out 0 [concat groups] [] w) = Inr [traj_name v out 0])"
    by (rule write_single_events) simp
  from 1 2 show ?thesis unfolding n by simp
qed
theorem split_conserves_frames_witness:
  "[[scenario_mol], [old_mol]] \<noteq> []
   \<and> map snd (written (trace (fst (write_section G96 ''traj.g96'' True
               [[scenario_mol], [old_mol]] empty_world))))
       = [scenario_mol, old_mol]
   \<and> written (trace (fst (write_section G96 ''traj.g96'' False
               [[scenario_mol], [old_mol]] empty_world)))
       = [(''traj_1.g96'', scenario_mol), (''traj_1.g96'', old_mol)]
   \<and> opened (trace (fst (write_section G96 ''traj.g96'' False
               [[scenario_mol], [old_mol]] empty_world)))
       = [''traj_1.g96'']
   \<and> snd (write_section G96 ''traj.g96'' False [[scenario_mol], [old_mol]] empty_world)
       = Inr [''traj_1.g96'']"
proof -
  have h: "[[scenario_mol], [old_mol]] \<noteq> []" by simp
  have e1: "takeWhile str_ok (concat [[scenario_mol], [old_mol]]) = [scenario_mol, old_mol]"
    by code_simp
  have e2: "traj_name G96 ''traj.g96'' 0 = ''traj_1.g96''" by code_simp
  have e3: "written (trace empty_world) = []" "opened (trace empty_world) = []"
    by (simp_all add: empty_world_def written_def opened_def)
  have e4: "list_all str_ok (concat [[scenario_mol], [old_mol]])" by code_simp
  from split_conserves_frames[OF h, of G96 "''traj.g96''" empty_world] e4
  show ?thesis unfolding e1 e2 e3 by simp
qed

lemma write_frames_error:
  "write_frames p gs w = (w', Some e) \<Longrightarrow> e = IndexError \<and> (\<exists>g\<in>set gs. \<not> str_ok g)"
  by (induction gs arbitrary: w) (auto split: if_splits)

lemma write_trajs_error:
  "write_trajs v out k groups names w = (w', Inl e) \<Longrightarrow>
     e = IndexError \<and> (\<exists>g\<in>set (concat groups). \<not> str_ok g)"
proof (induction groups arbitrary: k names w)
  case Nil
  then show ?case by simp
next
  case (Cons traj rest)
  let ?name = "traj_name v out k"
  let ?w1 = "open_w ?name (auto_backup_file v ?name w)"
  obtain w2 err where wf: "write_frames ?name traj ?w1 = (w2, err)"
    by (cases "write_frames ?name traj ?w1")
  show ?case
  proof (cases err)
    case None
    with Cons.prems wf have "write_trajs v out (k + 1) rest (names @ [?name]) w2 = (w', Inl e)"
      by (simp add: Let_def)
    from Cons.IH[OF this] show ?thesis by auto
  next
    case (Some e')
    with Cons.prems wf have "e' = e" by (simp add: Let_def)
    with Some wf write_frames_error[of ?name traj ?w1 w2 e] show ?thesis by auto
  qed
qed

lemma write_section_error:
  assumes "write_section v out split groups w = (w', Inl e)" and "w' \<noteq> w"
  shows "e = IndexError \<and> (\<exists>g\<in>set (concat groups). \<not> str_ok g)"
proof (cases "group_trajs split groups")
  case (Inl e')
  with assms show ?thesis by (simp add: write_section_def)
next
  case (Inr gs)
  then have "concat gs = concat groups"
    by (auto simp: group_trajs_def split: if_splits)
  moreover from Inr assms(1) have "write_trajs v out 0 gs [] w = (w', Inl e)"
    by (simp add: write_section_def)
  ultimately show ?thesis using write_trajs_error by metis
qed

text \<open>
  C8, as stated, fails: an atom line with two fields is accepted by the scan, and the
  \<^verbatim>\<open>IndexError\<close> of \<^verbatim>\<open>str(frame)\<close> comes after the existing output was renamed and the
  new file opened.
\<close>

theorem late_failure_counterexample:
  "venus2g96 short_atom_line ''traj.g96'' None True old_world
     = (\<lparr>files = [(''traj_1.g96'', []), (''#traj_1.1.g96#'', [old_mol])],
         trace = [Rename ''traj_1.g96'' ''#traj_1.1.g96#'', OpenW ''traj_1.g96'']\<rparr>,
        Inl IndexError)"
  by code_simp

text \<open>
  C8, amended. Whenever the template, the scan of the VENUS96 lines or the concatenation
  of the groups raises, the run ends with that exception and the files and the trace are
  those it started with: parsing is complete before the first rename or open. A run that
  ends with an exception after it has changed the files or the trace ends with the
  \<open>IndexError\<close> of a record whose \<^verbatim>\<open>str\<close> raises.
\<close>

theorem parse_failure_leaves_files:
  "(parse_venus G96 reorder venus_out = Inl e
      \<longrightarrow> venus2g96 venus_out out reorder split w = (w, Inl e))
   \<and> (parse_template template_gro = Inl e
      \<longrightarrow> venus2gro venus_out template_gro out reorder split w = (w, Inl e))
   \<and> (parse_template template_gro = Inr t \<and> parse_venus (Gro t) reorder venus_out = Inl e
      \<longrightarrow> venus2gro venus_out template_gro out reorder split w = (w, Inl e))
   \<and> (parse_venus G96 reorder venus_out = Inr groups \<and> group_trajs split groups = Inl e
      \<longrightarrow> venus2g96 venus_out out reorder split w = (w, Inl e))
   \<and> (venus2g96 venus_out out reorder split w = (w', Inl e) \<and> w' \<noteq> w
      \<longrightarrow> e = IndexError
          \<and> (\<exists>gs. parse_venus G96 reorder venus_out = Inr gs
                   \<and> (\<exists>g\<in>set (concat gs). \<not> str_ok g)))
   \<and> (venus2gro venus_out template_gro out reorder split w = (w', Inl e) \<and> w' \<noteq> w
      \<longrightarrow> e = IndexError
          \<and> (\<exists>t gs. parse_template template_gro = Inr t
                   \<and> parse_venus (Gro t) reorder venus_out = Inr gs
                   \<and> (\<exists>g\<in>set (concat gs). \<not> str_ok g)))"
proof (intro conjI impI)
  assume a: "venus2g96 venus_out out reorder split w = (w', Inl e) \<and> w' \<noteq> w"
  then obtain gs where p: "parse_venus G96 reorder venus_out = Inr gs"
    and s: "write_section G96 out split gs w = (w', Inl e)"
    by (auto simp: venus2g96_def split: sum.splits)
  from write_section_error[OF s] a p
  show "e = IndexError"
    and "\<exists>gs. parse_venus G96 reorder venus_out = Inr gs \<and> (\<exists>g\<in>set (concat gs). \<not> str_ok g)"
    by auto
next
  assume a: "venus2gro venus_out template_gro out reorder split w = (w', Inl e) \<and> w' \<noteq> w"
  then obtain t gs where pt: "parse_template template_gro = Inr t"
    and p: "parse_venus (Gro t) reorder venus_out = Inr gs"
    and s: "write_section (Gro t) out split gs w = (w', Inl e)"
    by (auto simp: venus2gro_def split: sum.splits)
  from write_section_error[OF s] a pt p
  show "e = IndexError"
    and "\<exists>t gs. parse_template template_gro = Inr t
           \<and> parse_venus (Gro t) reorder venus_out = Inr gs
           \<and> (\<exists>g\<in>set (concat gs). \<not> str_ok g)"
    by auto
qed (simp_all add: venus2g96_def venus2gro_def write_section_def)

theorem parse_failure_leaves_files_witness:
  "parse_venus G96 None no_masses = Inl IndexError
   \<and> venus2g96 no_masses ''traj.g96'' None True old_world = (old_world, Inl IndexError)
   \<and> parse_template [] = Inl IndexError
   \<and> venus2gro scenario [] ''traj.gro'' None True old_world = (old_world, Inl IndexError)
   \<and> parse_template template_two = Inr template_two_parsed
   \<and> parse_venus (Gro template_two_parsed) None surplus_mass = Inl AssertionError
   \<and> venus2gro surplus_mass template_two ''traj.gro'' None True old_world
       = (old_world, Inl AssertionError)
   \<and> parse_venus G96 None [] = Inr []
   \<and> group_trajs False [] = Inl ValueError
   \<and> venus2g96 [] ''traj.g96'' None False old_world = (old_world, Inl ValueError)
   \<and> venus2g96 short_atom_line ''traj.g96'' None True empty_world
       = (\<lparr>files = [(''traj_1.g96'', [])], trace = [OpenW ''traj_1.g96'']\<rparr>, Inl IndexError)
   \<and> \<lparr>files = [(''traj_1.g96'', [])], trace = [OpenW ''traj_1.g96'']\<rparr> \<noteq> empty_world
   \<and> venus2gro short_atom_line template_one ''traj.gro'' None True empty_world
       = (\<lparr>files = [(''traj_0.gro'', [])], trace = [OpenW ''traj_0.gro'']\<rparr>, Inl IndexError)
   \<and> \<lparr>files = [(''traj_0.gro'', [])], trace = [OpenW ''traj_0.gro'']\<rparr> \<noteq> empty_world
   \<and> parse_venus G96 None short_atom_line = Inr [[G96Mol [] (100, 1 / 2) [[1 / 10, 1 / 5]] [[]]]]
   \<and> \<not> str_ok (G96Mol [] (100, 1 / 2) [[1 / 10, 1 / 5]] [[]])"
proof -
  let ?w1 = "\<lparr>files = [(''traj_1.g96'', [])], trace = [OpenW ''traj_1.g96'']\<rparr>"
  let ?w0 = "\<lparr>files = [(''traj_0.gro'', [])], trace = [OpenW ''traj_0.gro'']\<rparr>"
  have h1: "parse_venus G96 None no_masses = Inl IndexError" by code_simp
  have h2: "parse_template [] = Inl IndexError" by code_simp
  have h3: "parse_template template_two = Inr template_two_parsed" by code_simp
  have h4: "parse_venus (Gro template_two_parsed) None surplus_mass = Inl AssertionError"
    by code_simp
  have h5: "parse_venus G96 None [] = Inr []" by code_simp
  have h6: "group_trajs False [] = Inl ValueError" by code_simp
  have h7: "venus2g96 short_atom_line ''traj.g96'' None True empty_world = (?w1, Inl IndexError)"
    by code_simp
  have h8: "?w1 \<noteq> empty_world" by (simp add: empty_world_def)
  have h9: "venus2gro short_atom_line template_one ''traj.gro'' None True empty_world
              = (?w0, Inl IndexError)"
    by code_simp
  have h10: "?w0 \<noteq> empty_world" by (simp add: empty_world_def)
  have h11: "parse_venus G96 None short_atom_line
               = Inr [[G96Mol [] (100, 1 / 2) [[1 / 10, 1 / 5]] [[]]]]"
    by code_simp
  have h12: "\<not> str_ok (G96Mol [] (100, 1 / 2) [[1 / 10, 1 / 5]] [[]])" by code_simp
  from parse_failure_leaves_files[where reorder = None and venus_out = no_masses and e = IndexError
         and out = "''traj.g96''" and split = True and w = old_world] h1
  have c1: "venus2g96 no_masses ''traj.g96'' None True old_world = (old_world, Inl IndexError)"
    by simp
  from parse_failure_leaves_files[where reorder = None and venus_out = scenario and e = IndexError
         and out = "''traj.gro''" and split = True and w = old_world and template_gro = "[]"] h2
  have c2: "venus2gro scenario [] ''traj.gro'' None True old_world = (old_world, Inl IndexError)"
    by simp
  from parse_failure_leaves_files[where reorder = None and venus_out = surplus_mass
         and e = AssertionError and out = "''traj.gro''" and split = True and w = old_world
         and template_gro = template_two and t = template_two_parsed] h3 h4
  have c3: "venus2gro surplus_mass template_two ''traj.gro'' None True old_world
              = (old_world, Inl AssertionError)"
    by simp
  from parse_failure_leaves_files[where reorder = None and venus_out = "[]" and e = ValueError
         and out = "''traj.g96''" and split = False and w = old_world and groups = "[]"] h5 h6
  have c4: "venus2g96 [] ''traj.g96'' None False old_world = (old_world, Inl ValueError)"
    by simp
  show ?thesis
    by (intro conjI h1 h2 h3 h4 h5 h6 h7 h8 h9 h10 h11 h12 c1 c2 c3 c4)
qed

text \<open>
  C9. In the gro script the suffix is the position from \<^verbatim>\<open>enumerate\<close>, which starts at 0:
  the first trajectory of the scenario goes to \<^verbatim>\<open>traj_0.gro\<close>, while the g96 script adds 1
  and writes \<^verbatim>\<open>traj_1.g96\<close>.
\<close>

theorem gro_first_file_suffix:
  "snd (venus2gro scenario template_two ''traj.gro'' None True empty_world) = Inr [''traj_0.gro'']
   \<and> snd (venus2g96 scenario ''traj.g96'' None True empty_world) = Inr [''traj_1.g96'']"
  by code_simp

text \<open>
  C2. With the output in a subdirectory, the backup is looked for in that subdirectory
  but created in the working directory, always under the version 1: the second run
  replaces the backup of the first, and the records of the original file are lost.
\<close>

theorem backup_overwritten_in_subdirectory:
  "fst (venus2g96 scenario ''out/traj.g96'' None True
          \<lparr>files = [(''out/traj_1.g96'', [old_mol])], trace = []\<rparr>)
     = \<lparr>files = [(''out/traj_1.g96'', [scenario_mol]), (''#traj_1.1.g96#'', [old_mol])],
        trace = [Rename ''out/traj_1.g96'' ''#traj_1.1.g96#'', OpenW ''out/traj_1.g96'',
                 WriteMol ''out/traj_1.g96'' scenario_mol]\<rparr>
   \<and> files (fst (venus2g96 scenario ''out/traj.g96'' None True
                 (fst (venus2g96 scenario ''out/traj.g96'' None True
                        \<lparr>files = [(''out/traj_1.g96'', [old_mol])], trace = []\<rparr>))))
     = [(''out/traj_1.g96'', [scenario_mol]), (''#traj_1.1.g96#'', [scenario_mol])]"
  by code_simp

end
